theory Spec2Isabelle
  imports Complex_Main
begin

section \<open>Data model\<close>

text \<open>
  The application in \<^verbatim>\<open>src/app.py\<close> reads one Excel sheet into a pandas data frame,
  cleans it, derives the bounds and options of three controls and registers one callback
  that filters the cleaned frame and draws a scatter plot with a trend line.

  A sheet cell is empty, a number or a text. pandas stores an empty cell as NaN; here it
  is \<open>Blank\<close>. A number of the program is a binary64 floating-point value and is
  modelled by the rational it denotes: the decimal 1.05 of a sheet is the double nearest
  to 105/100, written \<open>fl (105 / 100)\<close> below. Infinities, overflow and subnormal
  values are not modelled. A numeric column after \<^verbatim>\<open>pd.to_numeric\<close> holds
  \<open>rat option\<close>, with \<open>None\<close> for NaN.
\<close>

datatype cell = Blank | Number rat | Text string

text \<open>
  One row of the frame. The type parameter is the type of the two numeric columns:
  \<open>cell\<close> as read from the sheet, \<open>rat option\<close> after numeric coercion. The fields are
  the columns the program uses, under the names the specification gives them; the
  renaming of lines 16-24 changes column labels only.
\<close>

record 'n row =
  volumetric_energy_input :: 'n
  decimal_microbial_reduction :: 'n
  matrix_category :: cell
  doi :: cell
  food_ph :: cell
  microorganism :: cell
  specific_matrix :: cell
  study_below_equal_300 :: cell

type_synonym raw_table = "cell row list"
type_synonym table = "rat option row list"

text \<open>
  The exceptions of the program. \<open>ValueError\<close> is raised by \<^verbatim>\<open>pd.to_numeric\<close> on a
  text that is not a number, \<open>IndexError\<close> by an index out of range.
  \<open>EmptyDatasetError\<close> is the error the specification names for an empty cleaned table;
  no statement of the source raises it.
\<close>

datatype error = ValueError | IndexError | EmptyDatasetError

section \<open>Dataset loader (lines 13-37)\<close>

text \<open>Line 27: \<^verbatim>\<open>df['Food pH'].fillna("NA")\<close>.\<close>

definition fillna :: "cell \<Rightarrow> cell \<Rightarrow> cell" where
  "fillna v c = (case c of Blank \<Rightarrow> v | _ \<Rightarrow> c)"

text \<open>
  Lines 30-31: \<^verbatim>\<open>pd.to_numeric\<close> converts a whole column, and raises on the first text
  it cannot read as a number. How pandas reads a text as a number is the parameter
  \<open>parse\<close>.
\<close>

definition numeric_cell :: "(string \<Rightarrow> rat option) \<Rightarrow> cell \<Rightarrow> error + rat option" where
  "numeric_cell parse c =
     (case c of
        Blank \<Rightarrow> Inr None
      | Number q \<Rightarrow> Inr (Some q)
      | Text s \<Rightarrow> (case parse s of None \<Rightarrow> Inl ValueError | Some q \<Rightarrow> Inr (Some q)))"

fun to_numeric :: "(string \<Rightarrow> rat option) \<Rightarrow> cell list \<Rightarrow> error + rat option list" where
  "to_numeric parse [] = Inr []"
| "to_numeric parse (c # cs) =
     (case numeric_cell parse c of
        Inl e \<Rightarrow> Inl e
      | Inr v \<Rightarrow> (case to_numeric parse cs of Inl e \<Rightarrow> Inl e | Inr vs \<Rightarrow> Inr (v # vs)))"

text \<open>Writing the two converted columns back into the frame.\<close>

definition set_numeric :: "cell row \<Rightarrow> rat option \<Rightarrow> rat option \<Rightarrow> rat option row" where
  "set_numeric r e d =
     \<lparr> volumetric_energy_input = e,
       decimal_microbial_reduction = d,
       matrix_category = matrix_category r,
       doi = doi r,
       food_ph = food_ph r,
       microorganism = microorganism r,
       specific_matrix = specific_matrix r,
       study_below_equal_300 = study_below_equal_300 r \<rparr>"

fun assign_numeric :: "raw_table \<Rightarrow> rat option list \<Rightarrow> rat option list \<Rightarrow> table" where
  "assign_numeric (r # rs) (e # es) (d # ds) = set_numeric r e d # assign_numeric rs es ds"
| "assign_numeric _ _ _ = []"

text \<open>
  Lines 34-37, one boolean mask each. A comparison with NaN is false in pandas, so
  \<^verbatim>\<open>df[...] <= 300\<close> is false on a missing value.
\<close>

definition notna :: "rat option \<Rightarrow> bool" where
  "notna v = (case v of None \<Rightarrow> False | Some _ \<Rightarrow> True)"

definition le_300 :: "rat option \<Rightarrow> bool" where
  "le_300 v = (case v of None \<Rightarrow> False | Some x \<Rightarrow> x \<le> 300)"

definition apply_filters :: "table \<Rightarrow> table" where
  "apply_filters df0 =
     (let df1 = filter (\<lambda>r. notna (volumetric_energy_input r)) df0;
          df2 = filter (\<lambda>r. le_300 (volumetric_energy_input r)) df1;
          df3 = filter (\<lambda>r. notna (decimal_microbial_reduction r)) df2;
          df4 = filter (\<lambda>r. study_below_equal_300 r = Text ''yes'') df3
      in df4)"

definition load :: "(string \<Rightarrow> rat option) \<Rightarrow> raw_table \<Rightarrow> error + table" where
  "load parse sheet =
     (let df = map (\<lambda>r. r\<lparr>food_ph := fillna (Text ''NA'') (food_ph r)\<rparr>) sheet
      in case to_numeric parse (map volumetric_energy_input df) of
           Inl e \<Rightarrow> Inl e
         | Inr es \<Rightarrow>
             (case to_numeric parse (map decimal_microbial_reduction df) of
                Inl e \<Rightarrow> Inl e
              | Inr ds \<Rightarrow> Inr (apply_filters (assign_numeric df es ds))))"

text \<open>The invariant of the cleaned table, as the specification words it.\<close>

definition clean_row :: "rat option row \<Rightarrow> bool" where
  "clean_row r =
     ((case volumetric_energy_input r of None \<Rightarrow> False | Some x \<Rightarrow> x \<le> 300)
      \<and> decimal_microbial_reduction r \<noteq> None
      \<and> study_below_equal_300 r = Text ''yes'')"

section \<open>Rounding to one decimal\<close>

text \<open>
  Rounding a rational to the nearest integer, a tie going to the even neighbour: the
  rounding mode of \<^verbatim>\<open>rint\<close> and of every floating-point operation.
\<close>

definition rint :: "rat \<Rightarrow> int" where
  "rint x =
     (let f = \<lfloor>x\<rfloor>; d = x - of_int f
      in if d < 1 / 2 then f
         else if 1 / 2 < d then f + 1
         else if even f then f else f + 1)"

text \<open>
  The binade of a positive rational \<open>a\<close> is the power of two \<open>p\<close> with
  \<open>p \<le> a < 2 * p\<close>, found by doubling or halving from 1.
\<close>

function binade_up :: "rat \<Rightarrow> rat \<Rightarrow> rat" where
  "binade_up a p = (if 0 < p \<and> 2 * p \<le> a then binade_up a (2 * p) else p)"
  by pat_completeness auto
termination
proof (relation "measure (\<lambda>(a, p). nat \<lceil>a / p\<rceil>)")
  show "wf (measure (\<lambda>(a, p). nat \<lceil>a / p\<rceil>))" by simp
next
  fix a p :: rat
  assume h: "0 < p \<and> 2 * p \<le> a"
  then have "a / (2 * p) \<le> a / p - 1"
    by (simp add: field_simps)
  then have "\<lceil>a / (2 * p)\<rceil> \<le> \<lceil>a / p\<rceil> - 1"
    by (metis ceiling_mono ceiling_diff_one)
  moreover have "0 < \<lceil>a / p\<rceil>" using h by (simp add: field_simps)
  ultimately show "((a, 2 * p), (a, p)) \<in> measure (\<lambda>(a, p). nat \<lceil>a / p\<rceil>)"
    by simp
qed

function binade_down :: "rat \<Rightarrow> rat \<Rightarrow> rat" where
  "binade_down a p = (if 0 < a \<and> a < p then binade_down a (p / 2) else p)"
  by pat_completeness auto
termination
proof (relation "measure (\<lambda>(a, p). nat \<lceil>p / a\<rceil>)")
  show "wf (measure (\<lambda>(a, p). nat \<lceil>p / a\<rceil>))" by simp
next
  fix a p :: rat
  assume h: "0 < a \<and> a < p"
  then have "1 < p / a" by (simp add: field_simps)
  then have two: "2 \<le> \<lceil>p / a\<rceil>" by linarith
  have "\<lceil>p / 2 / a\<rceil> < \<lceil>p / a\<rceil>"
  proof (cases "p / a \<le> 2")
    case True
    then have "p / 2 / a \<le> 1" by simp
    then have "\<lceil>p / 2 / a\<rceil> \<le> 1" by (simp add: ceiling_le_one)
    with two show ?thesis by linarith
  next
    case False
    then have "p / 2 / a \<le> p / a - 1" by simp
    then have "\<lceil>p / 2 / a\<rceil> \<le> \<lceil>p / a\<rceil> - 1"
      by (metis ceiling_mono ceiling_diff_one)
    then show ?thesis by linarith
  qed
  with two show "((a, p / 2), (a, p)) \<in> measure (\<lambda>(a, p). nat \<lceil>p / a\<rceil>)"
    by simp
qed

definition binade :: "rat \<Rightarrow> rat" where
  "binade a = (if 1 \<le> a then binade_up a 1 else binade_down a 1)"

text \<open>
  \<open>fl x\<close> is the double nearest to \<open>x\<close>: \<open>x\<close> rounded to a multiple of the unit in the
  last place of its binade (53 significant bits), a tie going to the even significand.
\<close>

definition fl :: "rat \<Rightarrow> rat" where
  "fl x = (if x = 0 then 0
           else let u = binade \<bar>x\<bar> / 2 ^ 52 in of_int (rint (x / u)) * u)"

text \<open>
  The program rounds to one decimal in two ways, and they differ on doubles.

  Python's builtin \<^verbatim>\<open>round(x, 1)\<close>, applied to the two bounds of the range in lines
  103-104, rounds the exact value of the double \<open>x\<close> to the nearest decimal with one
  digit and returns the double nearest to that decimal.

  \<^verbatim>\<open>Series.round(1)\<close> of line 101 is numpy's rounding, which computes
  \<^verbatim>\<open>rint(x * 10) / 10\<close> in floating point: the product is rounded to a double before
  \<^verbatim>\<open>rint\<close> sees it. \<^verbatim>\<open>round\<close> applied to a numpy scalar, as in lines 45-46 to the
  result of \<^verbatim>\<open>min()\<close> and \<^verbatim>\<open>max()\<close>, is the same numpy rounding.

  The double 1.05 lies just above 105/100: the builtin gives 1.1, while the floating-point
  product 1.05 * 10 is exactly 10.5, a tie, and numpy gives 1.0.
\<close>

definition py_round1 :: "rat \<Rightarrow> rat" where
  "py_round1 x = fl (of_int (rint (x * 10)) / 10)"

definition np_round1 :: "rat \<Rightarrow> rat" where
  "np_round1 x = fl (of_int (rint (fl (x * 10))) / 10)"

section \<open>Control descriptor and layout (lines 40-80)\<close>

text \<open>\<^verbatim>\<open>Series.unique()\<close>: the distinct values in order of first appearance.\<close>

fun unique_from :: "'a list \<Rightarrow> 'a list \<Rightarrow> 'a list" where
  "unique_from seen [] = rev seen"
| "unique_from seen (x # xs) =
     (if x \<in> set seen then unique_from seen xs else unique_from (x # seen) xs)"

definition unique :: "'a list \<Rightarrow> 'a list" where
  "unique xs = unique_from [] xs"

text \<open>
  \<^verbatim>\<open>Series.min()\<close> and \<^verbatim>\<open>Series.max()\<close> skip missing values and give NaN on a series
  without values; rounding NaN gives NaN. Both return a numpy scalar.
\<close>

fun present :: "rat option list \<Rightarrow> rat list" where
  "present [] = []"
| "present (None # vs) = present vs"
| "present (Some x # vs) = x # present vs"

definition series_min :: "rat option list \<Rightarrow> rat option" where
  "series_min vs = (case present vs of [] \<Rightarrow> None | x # xs \<Rightarrow> Some (fold min xs x))"

definition series_max :: "rat option list \<Rightarrow> rat option" where
  "series_max vs = (case present vs of [] \<Rightarrow> None | x # xs \<Rightarrow> Some (fold max xs x))"

text \<open>The module-level variables that exist once lines 13-46 have run.\<close>

record app_state =
  df :: table
  organism_grouped_values :: "cell list"
  matrix_category_values :: "cell list"
  min_est_energy_input_2_J_ml_rounded :: "rat option"
  max_est_energy_input_2_J_ml_rounded :: "rat option"

definition control_descriptor :: "table \<Rightarrow> app_state" where
  "control_descriptor tbl =
     \<lparr> df = tbl,
       organism_grouped_values = unique (map microorganism tbl),
       matrix_category_values = unique (map matrix_category tbl),
       min_est_energy_input_2_J_ml_rounded =
         map_option np_round1 (series_min (map volumetric_energy_input tbl)),
       max_est_energy_input_2_J_ml_rounded =
         map_option np_round1 (series_max (map volumetric_energy_input tbl)) \<rparr>"

text \<open>Python indexing \<^verbatim>\<open>xs[i]\<close> with a non-negative index.\<close>

definition item :: "'a list \<Rightarrow> nat \<Rightarrow> error + 'a" where
  "item xs i = (if i < length xs then Inr (xs ! i) else Inl IndexError)"

record range_slider =
  slider_min :: "rat option"
  slider_max :: "rat option"
  slider_value :: "rat option list"

record dropdown =
  options :: "cell list"
  dropdown_value :: cell
  multi :: bool

record layout =
  energy_slider :: range_slider
  category_dropdown :: dropdown
  organism_dropdown :: dropdown

text \<open>
  Lines 49-80. The arguments are evaluated in order: the range slider is built first,
  then each dropdown takes element 0 of its list of options as its initial value.
\<close>

definition build_layout :: "app_state \<Rightarrow> error + layout" where
  "build_layout s =
     (let sl = \<lparr> slider_min = min_est_energy_input_2_J_ml_rounded s,
                 slider_max = max_est_energy_input_2_J_ml_rounded s,
                 slider_value = [min_est_energy_input_2_J_ml_rounded s,
                                 max_est_energy_input_2_J_ml_rounded s] \<rparr>
      in case item (matrix_category_values s) 0 of
           Inl e \<Rightarrow> Inl e
         | Inr c \<Rightarrow>
             (case item (organism_grouped_values s) 0 of
                Inl e \<Rightarrow> Inl e
              | Inr g \<Rightarrow>
                  Inr \<lparr> energy_slider = sl,
                        category_dropdown =
                          \<lparr> options = matrix_category_values s, dropdown_value = c,
                            multi = True \<rparr>,
                        organism_dropdown =
                          \<lparr> options = organism_grouped_values s, dropdown_value = g,
                            multi = True \<rparr> \<rparr>))"

text \<open>Everything the module does when it is imported.\<close>

definition startup :: "(string \<Rightarrow> rat option) \<Rightarrow> raw_table \<Rightarrow> error + app_state \<times> layout" where
  "startup parse sheet =
     (case load parse sheet of
        Inl e \<Rightarrow> Inl e
      | Inr tbl \<Rightarrow>
          (let s = control_descriptor tbl
           in case build_layout s of Inl e \<Rightarrow> Inl e | Inr l \<Rightarrow> Inr (s, l)))"


section \<open>Trend line of the plotting call (lines 130-144)\<close>

text \<open>
  \<^verbatim>\<open>px.scatter\<close> is called with \<^verbatim>\<open>trendline="ols"\<close>, \<^verbatim>\<open>trendline_scope="overall"\<close> and
  \<^verbatim>\<open>trendline_options={"add_constant": False}\<close>. With the overall scope the plotting
  library fits one line to every row of the frame it is given that has both
  coordinates, and only when there is more than one such row. With
  \<^verbatim>\<open>add_constant\<close> false the regression has the energy as its only regressor: no
  constant column is added, so the fitted line passes through the origin. The fit is a
  pseudo-inverse solution, which is 0 when every energy is 0. The fit is the plotting
  library's; it is modelled as the exact least-squares solution.
\<close>

record trendline =
  slope :: rat
  intercept :: rat

fun xy_points :: "table \<Rightarrow> (rat \<times> rat) list" where
  "xy_points [] = []"
| "xy_points (r # rs) =
     (case (volumetric_energy_input r, decimal_microbial_reduction r) of
        (Some x, Some y) \<Rightarrow> (x, y) # xy_points rs
      | _ \<Rightarrow> xy_points rs)"

definition sum_xx :: "(rat \<times> rat) list \<Rightarrow> rat" where
  "sum_xx pts = sum_list (map (\<lambda>(x, y). x * x) pts)"

definition sum_xy :: "(rat \<times> rat) list \<Rightarrow> rat" where
  "sum_xy pts = sum_list (map (\<lambda>(x, y). x * y) pts)"

definition ols_no_constant :: "(rat \<times> rat) list \<Rightarrow> trendline" where
  "ols_no_constant pts =
     \<lparr> slope = (if sum_xx pts = 0 then 0 else sum_xy pts / sum_xx pts), intercept = 0 \<rparr>"

definition overall_trendline :: "table \<Rightarrow> trendline option" where
  "overall_trendline tbl =
     (let pts = xy_points tbl
      in if 1 < length pts then Some (ols_no_constant pts) else None)"

text \<open>
  The figure the callback returns: the rows drawn, the overall trend line when there is
  one, and the axis titles of lines 147-150. Marker symbols and colours are presentation
  attributes and are left out.
\<close>

record chart =
  points :: table
  trend :: "trendline option"
  xaxis_title :: string
  yaxis_title :: string

text \<open>
  \<^verbatim>\<open>px.scatter\<close> of lines 130-144. With \<^verbatim>\<open>trendline="ols"\<close> and
  \<^verbatim>\<open>trendline_scope="overall"\<close> the call raises IndexError on a frame that yields no
  trace, which is what a frame without rows does. The grouping of the points into traces
  by matrix category and the hover data are presentation and are left out.
\<close>

definition px_scatter :: "table \<Rightarrow> string \<Rightarrow> string \<Rightarrow> error + chart" where
  "px_scatter filtered_df x y =
     (if filtered_df = [] then Inl IndexError
      else Inr \<lparr> points = filtered_df,
                 trend = overall_trendline filtered_df,
                 xaxis_title = x,
                 yaxis_title = y \<rparr>)"

section \<open>Filter-and-render callback (lines 93-152)\<close>

text \<open>
  A dropdown delivers a list of values, or a bare value. Lines 111-112 and 115-116
  wrap a value that is not a list into a one-element list.
\<close>

datatype selection = Scalar cell | Multiple "cell list"

definition as_list :: "selection \<Rightarrow> cell list" where
  "as_list sel = (case sel of Multiple vs \<Rightarrow> vs | Scalar v \<Rightarrow> [v])"

text \<open>\<^verbatim>\<open>Series.between(lo, hi)\<close> is inclusive at both ends and false on NaN.\<close>

definition between :: "rat option \<Rightarrow> rat \<Rightarrow> rat \<Rightarrow> bool" where
  "between v lo hi = (case v of None \<Rightarrow> False | Some x \<Rightarrow> lo \<le> x \<and> x \<le> hi)"

text \<open>\<^verbatim>\<open>Series.isin(values)\<close>; a missing value matches a missing value.\<close>

definition isin :: "cell \<Rightarrow> cell list \<Rightarrow> bool" where
  "isin c vs = (c \<in> set vs)"

text \<open>
  Lines 101-120: the energies rounded by \<^verbatim>\<open>Series.round(1)\<close>, the bounds rounded by the
  builtin \<^verbatim>\<open>round\<close>, the mask and the rows the mask selects.
\<close>

definition filter_rows :: "rat \<Rightarrow> rat \<Rightarrow> selection \<Rightarrow> selection \<Rightarrow> table \<Rightarrow> table" where
  "filter_rows lo hi selected_matrix_categories selected_organism_grouped tbl =
     (let rounded_area_values =
            map (\<lambda>r. map_option np_round1 (volumetric_energy_input r)) tbl;
          rounded_area_range = (py_round1 lo, py_round1 hi);
          mask = map (\<lambda>(v, r).
                   between v (fst rounded_area_range) (snd rounded_area_range)
                   \<and> isin (matrix_category r) (as_list selected_matrix_categories)
                   \<and> isin (microorganism r) (as_list selected_organism_grouped))
                 (zip rounded_area_values tbl)
      in map snd (filter fst (zip mask tbl)))"

text \<open>
  The callback reads the module-level frame and returns a figure, or raises what the
  indexing of the range or the plotting call raises. It is written as a state
  transformer so that what it does to the module-level variables is part of the model.
  The range arrives as a list and is indexed at 0 and 1.
\<close>

definition update_bar_chart ::
  "rat list \<Rightarrow> selection \<Rightarrow> selection \<Rightarrow> app_state \<Rightarrow> (error + chart) \<times> app_state" where
  "update_bar_chart est_energy_input_2_J_ml_range selected_matrix_categories
       selected_organism_grouped s =
     (case item est_energy_input_2_J_ml_range 0 of
        Inl e \<Rightarrow> (Inl e, s)
      | Inr lo \<Rightarrow>
          (case item est_energy_input_2_J_ml_range 1 of
             Inl e \<Rightarrow> (Inl e, s)
           | Inr hi \<Rightarrow>
               (let filtered_df = filter_rows lo hi selected_matrix_categories
                                    selected_organism_grouped (df s)
                in case px_scatter filtered_df ''Volumetric energy input (kJ/L)''
                          ''Decimal microbial reduction (-)'' of
                     Inl e \<Rightarrow> (Inl e, s)
                   | Inr fig \<Rightarrow> (Inr fig, s))))"

section \<open>Specification-side notions\<close>

text \<open>
  The line the specification describes: ordinary least squares of reduction on energy
  with a slope and a free intercept. It is undefined when all energies coincide.
\<close>

definition spec_ols_line :: "(rat \<times> rat) list \<Rightarrow> trendline option" where
  "spec_ols_line pts =
     (let n = of_nat (length pts);
          sx = sum_list (map fst pts);
          sy = sum_list (map snd pts);
          d = n * sum_xx pts - sx * sx
      in if d = 0 then None
         else let b = (n * sum_xy pts - sx * sy) / d
              in Some \<lparr> slope = b, intercept = (sy - b * sx) / n \<rparr>)"

text \<open>
  The predicate of the specification: the rounded energy lies in the rounded range, the
  category is among the selected categories and the organism among the selected
  organisms. Each rounding is the one the code applies at that place.
\<close>

definition selected_by :: "rat \<Rightarrow> rat \<Rightarrow> selection \<Rightarrow> selection \<Rightarrow> rat option row \<Rightarrow> bool" where
  "selected_by lo hi cats orgs r =
     ((case volumetric_energy_input r of
         None \<Rightarrow> False
       | Some e \<Rightarrow> py_round1 lo \<le> np_round1 e \<and> np_round1 e \<le> py_round1 hi)
      \<and> matrix_category r \<in> set (as_list cats)
      \<and> microorganism r \<in> set (as_list orgs))"

text \<open>The sum of squared residuals of the line \<open>y = b * x + a\<close> over a list of points.\<close>

definition sse :: "(rat \<times> rat) list \<Rightarrow> rat \<Rightarrow> rat \<Rightarrow> rat" where
  "sse pts b a = sum_list (map (\<lambda>(x, y). (y - (b * x + a)) * (y - (b * x + a))) pts)"

text \<open>Rows for examples: a sheet row and a row of the cleaned table.\<close>

definition sheet_row :: "cell \<Rightarrow> cell \<Rightarrow> cell \<Rightarrow> cell \<Rightarrow> cell \<Rightarrow> cell row" where
  "sheet_row e d c g f =
     \<lparr> volumetric_energy_input = e, decimal_microbial_reduction = d, matrix_category = c,
       doi = Text ''10.1000/x'', food_ph = Blank, microorganism = g,
       specific_matrix = Text ''juice'', study_below_equal_300 = f \<rparr>"

definition table_row :: "rat \<Rightarrow> rat \<Rightarrow> cell \<Rightarrow> cell \<Rightarrow> rat option row" where
  "table_row e d c g =
     \<lparr> volumetric_energy_input = Some e, decimal_microbial_reduction = Some d,
       matrix_category = c, doi = Text ''10.1000/x'', food_ph = Text ''NA'',
       microorganism = g, specific_matrix = Text ''juice'',
       study_below_equal_300 = Text ''yes'' \<rparr>"

definition example_sheet :: raw_table where
  "example_sheet =
     [sheet_row (Number 1) (Number 1) (Text ''juice'') (Text ''E. coli'') (Text ''yes''),
      sheet_row (Number 301) (Number 4) (Text ''juice'') (Text ''E. coli'') (Text ''yes''),
      sheet_row (Number 2) (Number 3) (Text ''juice'') (Text ''Listeria'') (Text ''yes''),
      sheet_row Blank (Number 2) (Text ''milk'') (Text ''E. coli'') (Text ''yes''),
      sheet_row (Number (3 / 2)) (Number 2) (Text ''milk'') (Text ''E. coli'') (Text ''yes''),
      sheet_row (Number 200) (Number 5) (Text ''milk'') (Text ''Listeria'') (Text ''no'')]"

definition example_table :: table where
  "example_table =
     [table_row 1 1 (Text ''juice'') (Text ''E. coli''),
      table_row 2 3 (Text ''juice'') (Text ''Listeria''),
      table_row (3 / 2) 2 (Text ''milk'') (Text ''E. coli'')]"


definition two_row_sheet :: raw_table where
  "two_row_sheet =
     [sheet_row (Number (fl (105 / 100))) (Number 2) (Text ''juice'') (Text ''E. coli'')
        (Text ''yes''),
      sheet_row (Number 5) (Number 3) (Text ''juice'') (Text ''E. coli'') (Text ''yes'')]"

definition two_row_table :: table where
  "two_row_table =
     [table_row (fl (105 / 100)) 2 (Text ''juice'') (Text ''E. coli''),
      table_row 5 3 (Text ''juice'') (Text ''E. coli'')]"

section \<open>The mask selects the rows that satisfy the predicate\<close>

lemma mask_select:
  "map snd (filter fst (zip (map (\<lambda>(v, r). Q v r) (zip (map g xs) xs)) xs))
   = filter (\<lambda>r. Q (g r) r) xs"
  by (induction xs) auto

lemma filter_rows_eq:
  "filter_rows lo hi cats orgs tbl = filter (selected_by lo hi cats orgs) tbl"
proof -
  have "\<And>r. (between (map_option np_round1 (volumetric_energy_input r))
                 (py_round1 lo) (py_round1 hi)
              \<and> isin (matrix_category r) (as_list cats)
              \<and> isin (microorganism r) (as_list orgs))
            = selected_by lo hi cats orgs r"
    by (auto simp: between_def isin_def selected_by_def split: option.splits)
  then show ?thesis
    unfolding filter_rows_def Let_def fst_conv snd_conv
    by (simp add: mask_select)
qed

lemma update_bar_chart_pair:
  "update_bar_chart [lo, hi] cats orgs s =
     (px_scatter (filter (selected_by lo hi cats orgs) (df s))
        ''Volumetric energy input (kJ/L)'' ''Decimal microbial reduction (-)'', s)"
  by (simp add: update_bar_chart_def item_def filter_rows_eq split: sum.splits)

lemma px_scatter_Inr:
  "px_scatter f x y = Inr ch \<Longrightarrow> f \<noteq> [] \<and> points ch = f \<and> trend ch = overall_trendline f"
  by (auto simp: px_scatter_def split: if_splits)

lemma update_bar_chart_drawn:
  assumes "filter (selected_by lo hi cats orgs) (df s) = f" and "f \<noteq> []"
  shows "fst (update_bar_chart [lo, hi] cats orgs s)
         = Inr \<lparr> points = f, trend = overall_trendline f,
                 xaxis_title = ''Volumetric energy input (kJ/L)'',
                 yaxis_title = ''Decimal microbial reduction (-)'' \<rparr>"
  using assms by (simp add: update_bar_chart_pair px_scatter_def)

section \<open>Properties of the loader\<close>

lemma apply_filters_eq: "apply_filters df0 = filter clean_row df0"
proof -
  have "\<And>r. (notna (volumetric_energy_input r) \<and> le_300 (volumetric_energy_input r)
             \<and> notna (decimal_microbial_reduction r) \<and> study_below_equal_300 r = Text ''yes'')
            = clean_row r"
    by (auto simp: notna_def le_300_def clean_row_def split: option.splits)
  then show ?thesis
    by (simp add: apply_filters_def Let_def conj_commute conj_left_commute cong: conj_cong)
qed

lemma load_filters: "load parse sheet = Inr tbl \<Longrightarrow> \<exists>df0. tbl = apply_filters df0"
  by (auto simp: load_def Let_def split: sum.splits)

text \<open>
  C1. Every row of the cleaned table produced by the loader has an energy that is
  present and at most 300, a reduction that is present, and the inclusion flag equal to
  the text "yes"; conversely each of the four masks of lines 34-37 removes every row
  that violates its condition, whatever the table they are applied to.
\<close>

theorem cleaned_table_invariant:
  "(load parse sheet = Inr tbl \<longrightarrow>
      (\<forall>r \<in> set tbl. \<exists>x. volumetric_energy_input r = Some x \<and> x \<le> 300
                        \<and> decimal_microbial_reduction r \<noteq> None
                        \<and> study_below_equal_300 r = Text ''yes''))
   \<and> set (apply_filters df0) = {r \<in> set df0. clean_row r}"
proof -
  have "\<And>r. clean_row r \<Longrightarrow> \<exists>x. volumetric_energy_input r = Some x \<and> x \<le> 300
                        \<and> decimal_microbial_reduction r \<noteq> None
                        \<and> study_below_equal_300 r = Text ''yes''"
    by (auto simp: clean_row_def split: option.splits)
  moreover have "load parse sheet = Inr tbl \<Longrightarrow> \<forall>r \<in> set tbl. clean_row r"
    using load_filters [of parse sheet tbl] by (auto simp: apply_filters_eq)
  ultimately show ?thesis
    by (auto simp: apply_filters_eq)
qed

theorem cleaned_table_invariant_witness:
  "load (\<lambda>_. None)
     [sheet_row (Number 10) (Number 2) (Text ''a'') (Text ''b'') (Text ''yes''),
      sheet_row (Number 301) (Number 2) (Text ''a'') (Text ''b'') (Text ''yes''),
      sheet_row Blank (Number 2) (Text ''a'') (Text ''b'') (Text ''yes''),
      sheet_row (Number 50) Blank (Text ''a'') (Text ''b'') (Text ''yes''),
      sheet_row (Number 200) (Number 2) (Text ''a'') (Text ''b'') (Text ''no'')]
   = Inr [table_row 10 2 (Text ''a'') (Text ''b'')]
   \<and> (\<exists>x. volumetric_energy_input (table_row 10 2 (Text ''a'') (Text ''b'')) = Some x
          \<and> x \<le> 300)
   \<and> decimal_microbial_reduction (table_row 10 2 (Text ''a'') (Text ''b'')) \<noteq> None
   \<and> study_below_equal_300 (table_row 10 2 (Text ''a'') (Text ''b'')) = Text ''yes''"
proof -
  have l: "load (\<lambda>_. None)
     [sheet_row (Number 10) (Number 2) (Text ''a'') (Text ''b'') (Text ''yes''),
      sheet_row (Number 301) (Number 2) (Text ''a'') (Text ''b'') (Text ''yes''),
      sheet_row Blank (Number 2) (Text ''a'') (Text ''b'') (Text ''yes''),
      sheet_row (Number 50) Blank (Text ''a'') (Text ''b'') (Text ''yes''),
      sheet_row (Number 200) (Number 2) (Text ''a'') (Text ''b'') (Text ''no'')]
   = Inr [table_row 10 2 (Text ''a'') (Text ''b'')]"
    by (simp add: load_def sheet_row_def table_row_def fillna_def numeric_cell_def
        set_numeric_def apply_filters_def notna_def le_300_def)
  from cleaned_table_invariant [of "\<lambda>_. None" _ "[table_row 10 2 (Text ''a'') (Text ''b'')]"] l
  have "\<forall>r \<in> set [table_row 10 2 (Text ''a'') (Text ''b'')].
          \<exists>x. volumetric_energy_input r = Some x \<and> x \<le> 300
              \<and> decimal_microbial_reduction r \<noteq> None
              \<and> study_below_equal_300 r = Text ''yes''"
    by blast
  then have "\<exists>x. volumetric_energy_input (table_row 10 2 (Text ''a'') (Text ''b'')) = Some x
          \<and> x \<le> 300
          \<and> decimal_microbial_reduction (table_row 10 2 (Text ''a'') (Text ''b'')) \<noteq> None
          \<and> study_below_equal_300 (table_row 10 2 (Text ''a'') (Text ''b'')) = Text ''yes''"
    by simp
  with l show ?thesis by blast
qed

section \<open>Properties of the callback's filter\<close>



text \<open>
  C3. The claim fails on the code. The code rounds the energies of the rows with
  \<^verbatim>\<open>Series.round(1)\<close>, which takes the double 1.05 to 1.0, while the builtin
  \<^verbatim>\<open>round\<close>, which the code applies to the range bounds, takes it to 1.1 as the claim
  says. With the range [1.0, 1.0] a row of raw energy 1.04 is included, as claimed, and a
  row of raw energy 1.05 is included too, where the claim excludes it.
\<close>

theorem boundary_tie_included:
  "np_round1 (fl (105 / 100)) = 1
   \<and> py_round1 (fl (105 / 100)) = fl (11 / 10)
   \<and> py_round1 1 = 1
   \<and> map_sum id points
       (fst (update_bar_chart [1, 1] (Scalar (Text ''juice'')) (Scalar (Text ''E. coli''))
               (control_descriptor
                  [table_row (fl (105 / 100)) 2 (Text ''juice'') (Text ''E. coli'')])))
     = Inr [table_row (fl (105 / 100)) 2 (Text ''juice'') (Text ''E. coli'')]
   \<and> map_sum id points
       (fst (update_bar_chart [1, 1] (Scalar (Text ''juice'')) (Scalar (Text ''E. coli''))
               (control_descriptor
                  [table_row (fl (104 / 100)) 2 (Text ''juice'') (Text ''E. coli'')])))
     = Inr [table_row (fl (104 / 100)) 2 (Text ''juice'') (Text ''E. coli'')]"
  by code_simp

section \<open>Round trip with the full range and all observed values\<close>

text \<open>
  C4. The claim fails on the code. For the cleaned table with the energies 1.05 and 5,
  the minimum is 1.05 and the maximum 5; the callback invoked with the range [1.05, 5]
  and all observed categories and organisms rounds the lower bound to 1.1 and the energy
  of the minimum row to 1.0, and returns the row of energy 5 alone. With the bounds the
  slider is built with, 1.0 and 5.0, the same table is returned whole.
\<close>

theorem round_trip_drops_minimum:
  "load (\<lambda>_. None) two_row_sheet = Inr two_row_table
   \<and> series_min (map volumetric_energy_input two_row_table) = Some (fl (105 / 100))
   \<and> series_max (map volumetric_energy_input two_row_table) = Some 5
   \<and> map_sum id points
       (fst (update_bar_chart [fl (105 / 100), 5]
               (Multiple (matrix_category_values (control_descriptor two_row_table)))
               (Multiple (organism_grouped_values (control_descriptor two_row_table)))
               (control_descriptor two_row_table)))
     = Inr [table_row 5 3 (Text ''juice'') (Text ''E. coli'')]
   \<and> min_est_energy_input_2_J_ml_rounded (control_descriptor two_row_table) = Some 1
   \<and> max_est_energy_input_2_J_ml_rounded (control_descriptor two_row_table) = Some 5
   \<and> map_sum id points
       (fst (update_bar_chart [1, 5]
               (Multiple (matrix_category_values (control_descriptor two_row_table)))
               (Multiple (organism_grouped_values (control_descriptor two_row_table)))
               (control_descriptor two_row_table)))
     = Inr two_row_table"
  by code_simp

section \<open>Monotonicity in the selections\<close>

text \<open>
  C10. For a fixed energy range, if the selected categories and organisms of one control
  state are contained in those of another, every row the callback draws for the first is
  drawn for the second: adding a value to a selection never removes a point.
\<close>

theorem selection_monotone:
  assumes "set (as_list cats) \<subseteq> set (as_list cats')"
    and "set (as_list orgs) \<subseteq> set (as_list orgs')"
    and "fst (update_bar_chart [lo, hi] cats orgs s) = Inr ch"
    and "fst (update_bar_chart [lo, hi] cats' orgs' s) = Inr ch'"
  shows "set (points ch) \<subseteq> set (points ch')"
proof -
  have "\<And>r. selected_by lo hi cats orgs r \<Longrightarrow> selected_by lo hi cats' orgs' r"
    using assms(1,2) by (auto simp: selected_by_def)
  moreover have "points ch = filter (selected_by lo hi cats orgs) (df s)"
    and "points ch' = filter (selected_by lo hi cats' orgs') (df s)"
    using assms(3,4) by (auto simp: update_bar_chart_pair dest: px_scatter_Inr)
  ultimately show ?thesis by auto
qed

theorem selection_monotone_witness:
  "set (as_list (Scalar (Text ''juice''))) \<subseteq> set (as_list (Multiple [Text ''juice'', Text ''milk'']))
   \<and> (\<exists>ch ch'.
         fst (update_bar_chart [0, 300] (Scalar (Text ''juice'')) (Multiple [Text ''E. coli''])
                (control_descriptor example_table)) = Inr ch
       \<and> fst (update_bar_chart [0, 300] (Multiple [Text ''juice'', Text ''milk''])
                (Multiple [Text ''E. coli'']) (control_descriptor example_table)) = Inr ch'
       \<and> points ch = [table_row 1 1 (Text ''juice'') (Text ''E. coli'')]
       \<and> set (points ch) \<subseteq> set (points ch'))"
proof -
  have d: "df (control_descriptor example_table) = example_table"
    by (simp add: control_descriptor_def)
  have h1: "set (as_list (Scalar (Text ''juice'')))
            \<subseteq> set (as_list (Multiple [Text ''juice'', Text ''milk'']))"
    by (simp add: as_list_def)
  have h2: "set (as_list (Multiple [Text ''E. coli''])) \<subseteq> set (as_list (Multiple [Text ''E. coli'']))"
    by simp
  have f3: "filter (selected_by 0 300 (Scalar (Text ''juice'')) (Multiple [Text ''E. coli'']))
              example_table = [table_row 1 1 (Text ''juice'') (Text ''E. coli'')]"
    by code_simp
  have f4: "filter (selected_by 0 300 (Multiple [Text ''juice'', Text ''milk''])
                      (Multiple [Text ''E. coli''])) example_table
            = [table_row 1 1 (Text ''juice'') (Text ''E. coli''),
               table_row (3 / 2) 2 (Text ''milk'') (Text ''E. coli'')]"
    by code_simp
  obtain ch where h3: "fst (update_bar_chart [0, 300] (Scalar (Text ''juice''))
                         (Multiple [Text ''E. coli'']) (control_descriptor example_table)) = Inr ch"
    and p: "points ch = [table_row 1 1 (Text ''juice'') (Text ''E. coli'')]"
    using update_bar_chart_drawn [of 0 300 "Scalar (Text ''juice'')" "Multiple [Text ''E. coli'']"
        "control_descriptor example_table"
        "[table_row 1 1 (Text ''juice'') (Text ''E. coli'')]"]
    by (simp add: d f3)
  obtain ch' where h4: "fst (update_bar_chart [0, 300] (Multiple [Text ''juice'', Text ''milk''])
                          (Multiple [Text ''E. coli'']) (control_descriptor example_table)) = Inr ch'"
    using update_bar_chart_drawn [of 0 300 "Multiple [Text ''juice'', Text ''milk'']"
        "Multiple [Text ''E. coli'']" "control_descriptor example_table"
        "[table_row 1 1 (Text ''juice'') (Text ''E. coli''),
          table_row (3 / 2) 2 (Text ''milk'') (Text ''E. coli'')]"]
    by (simp add: d f4)
  from selection_monotone [OF h1 h2 h3 h4] h1 h3 h4 p show ?thesis
    by blast
qed

section \<open>The callback as a state transformer\<close>

lemma update_bar_chart_state: "snd (update_bar_chart rng cats orgs s) = s"
  by (simp add: update_bar_chart_def Let_def split: sum.splits)

text \<open>
  C8. Two invocations of the callback with identical control values over the same
  cleaned table produce the same result, figure (points and trend line) or error:
  the result depends on the module state through the cleaned table only, and the second
  of two successive invocations, run on the state the first one leaves behind, returns
  what the first returned.
\<close>

theorem callback_deterministic:
  "(df s' = df s \<longrightarrow>
      fst (update_bar_chart rng cats orgs s') = fst (update_bar_chart rng cats orgs s))
   \<and> fst (update_bar_chart rng cats orgs (snd (update_bar_chart rng cats orgs s)))
       = fst (update_bar_chart rng cats orgs s)"
  by (simp add: update_bar_chart_state) (simp add: update_bar_chart_def Let_def split: sum.splits)

theorem callback_deterministic_witness:
  "df (control_descriptor example_table\<lparr>matrix_category_values := []\<rparr>)
     = df (control_descriptor example_table)
   \<and> fst (update_bar_chart [1, 2] (Scalar (Text ''juice'')) (Multiple [Text ''E. coli''])
            (control_descriptor example_table\<lparr>matrix_category_values := []\<rparr>))
     = fst (update_bar_chart [1, 2] (Scalar (Text ''juice'')) (Multiple [Text ''E. coli''])
              (control_descriptor example_table))"
proof -
  have h: "df (control_descriptor example_table\<lparr>matrix_category_values := []\<rparr>)
           = df (control_descriptor example_table)"
    by simp
  from callback_deterministic [of "control_descriptor example_table\<lparr>matrix_category_values := []\<rparr>"
      "control_descriptor example_table" "[1, 2]" "Scalar (Text ''juice'')"
      "Multiple [Text ''E. coli'']"] h
  show ?thesis by blast
qed

text \<open>
  C9. The callback has no effect outside its return value: for every control state, also
  a malformed one, the module state after an invocation is the module state before it,
  and in particular the cleaned table is the same, row by row and field by field. The
  rounded energies are a new series; the energies of the table are not rounded in place.
\<close>

theorem callback_leaves_table_unchanged:
  "snd (update_bar_chart rng cats orgs s) = s
   \<and> df (snd (update_bar_chart rng cats orgs s)) = df s"
  by (simp add: update_bar_chart_def Let_def split: sum.splits)

theorem callback_leaves_table_unchanged_witness:
  "df (snd (update_bar_chart [1, 2] (Scalar (Text ''juice'')) (Multiple [Text ''E. coli''])
              (control_descriptor example_table)))
   = [table_row 1 1 (Text ''juice'') (Text ''E. coli''),
      table_row 2 3 (Text ''juice'') (Text ''Listeria''),
      table_row (3 / 2) 2 (Text ''milk'') (Text ''E. coli'')]"
  using callback_leaves_table_unchanged [of "[1, 2]" "Scalar (Text ''juice'')"
      "Multiple [Text ''E. coli'']" "control_descriptor example_table"]
  by (simp add: control_descriptor_def example_table_def)

section \<open>Empty results\<close>

text \<open>
  C6. The claim fails on the code. Whenever the filtered set is empty, and so whenever
  the selected categories are the empty list, the callback does not return a figure
  without points: the plotting call raises IndexError and the callback raises it in turn.
\<close>

theorem empty_filtered_set_raises:
  "(filter_rows lo hi cats orgs (df s) = []
      \<longrightarrow> update_bar_chart [lo, hi] cats orgs s = (Inl IndexError, s))
   \<and> filter_rows lo hi (Multiple []) orgs (df s) = []"
  by (simp add: update_bar_chart_pair filter_rows_eq px_scatter_def selected_by_def as_list_def)

theorem empty_filtered_set_raises_witness:
  "filter_rows 1 2 (Multiple []) (Multiple [Text ''E. coli''])
     (df (control_descriptor example_table)) = []
   \<and> update_bar_chart [1, 2] (Multiple []) (Multiple [Text ''E. coli''])
       (control_descriptor example_table)
     = (Inl IndexError, control_descriptor example_table)"
  using empty_filtered_set_raises [of 1 2 "Multiple []" "Multiple [Text ''E. coli'']"
      "control_descriptor example_table"]
  by simp

section \<open>Startup on an empty cleaned table\<close>

lemma to_numeric_error: "to_numeric parse cs = Inl e \<Longrightarrow> e = ValueError"
  by (induction cs arbitrary: e)
    (auto simp: numeric_cell_def split: sum.splits cell.splits option.splits)

lemma load_error: "load parse sheet = Inl e \<Longrightarrow> e = ValueError"
  by (auto simp: load_def Let_def split: sum.splits dest: to_numeric_error)

lemma build_layout_error: "build_layout s = Inl e \<Longrightarrow> e = IndexError"
  by (auto simp: build_layout_def Let_def item_def split: sum.splits if_splits)

lemma startup_error: "startup parse sheet = Inl e \<Longrightarrow> e = ValueError \<or> e = IndexError"
  by (auto simp: startup_def Let_def split: sum.splits dest: load_error build_layout_error)

text \<open>
  C7, as amended. The program has no check for an empty cleaned table and never raises
  EmptyDatasetError. When the cleaned table has zero rows, the slider bounds of the
  control descriptor are undefined (NaN), and startup fails with an IndexError, raised
  when the first element of the empty list of category values is taken as the initial
  value of the dropdown.
\<close>

theorem empty_table_startup:
  "(load parse sheet = Inr [] \<longrightarrow>
      min_est_energy_input_2_J_ml_rounded (control_descriptor []) = None
    \<and> max_est_energy_input_2_J_ml_rounded (control_descriptor []) = None
    \<and> startup parse sheet = Inl IndexError)
   \<and> startup parse sheet \<noteq> Inl EmptyDatasetError"
proof -
  have "startup parse sheet \<noteq> Inl EmptyDatasetError"
    using startup_error [of parse sheet EmptyDatasetError] by auto
  then show ?thesis
    by (simp add: startup_def control_descriptor_def build_layout_def item_def unique_def
        series_min_def series_max_def)
qed

theorem empty_table_startup_witness:
  "load (\<lambda>_. None) [sheet_row (Number 301) (Number 2) (Text ''a'') (Text ''b'') (Text ''yes'')]
     = Inr []
   \<and> min_est_energy_input_2_J_ml_rounded (control_descriptor []) = None
   \<and> max_est_energy_input_2_J_ml_rounded (control_descriptor []) = None
   \<and> startup (\<lambda>_. None)
       [sheet_row (Number 301) (Number 2) (Text ''a'') (Text ''b'') (Text ''yes'')]
     = Inl IndexError"
proof -
  have l: "load (\<lambda>_. None)
      [sheet_row (Number 301) (Number 2) (Text ''a'') (Text ''b'') (Text ''yes'')] = Inr []"
    by (simp add: load_def sheet_row_def fillna_def numeric_cell_def
        set_numeric_def apply_filters_def notna_def le_300_def)
  from empty_table_startup [of "\<lambda>_. None"
      "[sheet_row (Number 301) (Number 2) (Text ''a'') (Text ''b'') (Text ''yes'')]"] l
  show ?thesis by simp
qed

text \<open>
  The claim as the specification states it fails: on a sheet whose only row is filtered
  out, startup does not fail with EmptyDatasetError.
\<close>

theorem empty_table_startup_counterexample:
  "startup (\<lambda>_. None)
     [sheet_row (Number 301) (Number 2) (Text ''a'') (Text ''b'') (Text ''yes'')]
   \<noteq> Inl EmptyDatasetError"
  by (simp add: startup_def load_def sheet_row_def fillna_def numeric_cell_def
      set_numeric_def apply_filters_def notna_def le_300_def control_descriptor_def
      build_layout_def item_def unique_def series_min_def series_max_def)

section \<open>The trend line\<close>

lemma sse_expand:
  "sse pts b 0 = sum_list (map (\<lambda>(x, y). y * y) pts) - 2 * b * sum_xy pts + b * b * sum_xx pts"
  by (induction pts) (auto simp: sse_def sum_xy_def sum_xx_def algebra_simps)

lemma sum_xx_nonneg: "0 \<le> sum_xx pts"
  by (induction pts) (auto simp: sum_xx_def)

lemma sum_xx_zero: "sum_xx pts = 0 \<Longrightarrow> sum_xy pts = 0"
proof (induction pts)
  case Nil
  show ?case by (simp add: sum_xy_def)
next
  case (Cons p pts)
  obtain x y where p: "p = (x, y)" by (cases p)
  have "0 \<le> x * x" by simp
  moreover have "0 \<le> sum_xx pts" by (rule sum_xx_nonneg)
  moreover have "x * x + sum_xx pts = 0" using Cons.prems by (simp add: sum_xx_def p)
  ultimately have "x * x = 0" and z: "sum_xx pts = 0" by linarith+
  then have "x = 0" by simp
  with Cons.IH [OF z] show ?case by (simp add: sum_xy_def p)
qed

lemma ols_no_constant_normal: "slope (ols_no_constant pts) * sum_xx pts = sum_xy pts"
  by (simp add: ols_no_constant_def sum_xx_zero)

lemma ols_no_constant_least: "sse pts (slope (ols_no_constant pts)) 0 \<le> sse pts b 0"
proof -
  let ?a = "slope (ols_no_constant pts)"
  have "sse pts b 0 - sse pts ?a 0 = sum_xx pts * ((b - ?a) * (b - ?a))"
    unfolding sse_expand using ols_no_constant_normal [of pts, symmetric]
    by (simp add: algebra_simps)
  moreover have "0 \<le> sum_xx pts * ((b - ?a) * (b - ?a))"
    using mult_nonneg_nonneg [OF sum_xx_nonneg [of pts] zero_le_square [of "b - ?a"]] by simp
  ultimately show ?thesis by linarith
qed

text \<open>
  C5, as amended. The trend line is a single least-squares fit of reduction on energy
  over the entire filtered subset (one line for all rows, not one per group), drawn when
  the subset has more than one point. Because the callback passes add_constant = False,
  the fit has no intercept term: the line is constrained through the origin, its
  intercept is 0, and its slope satisfies the normal equation of the regression without
  constant and minimises the sum of squared residuals among the lines through the origin.
\<close>

theorem trend_line_through_origin:
  assumes "fst (update_bar_chart [lo, hi] cats orgs s) = Inr ch"
  shows "points ch = filter (selected_by lo hi cats orgs) (df s)
       \<and> (trend ch = None \<longleftrightarrow> length (xy_points (points ch)) \<le> 1)
       \<and> (\<forall>t. trend ch = Some t \<longrightarrow>
             intercept t = 0
           \<and> slope t * sum_xx (xy_points (points ch)) = sum_xy (xy_points (points ch))
           \<and> (\<forall>b. sse (xy_points (points ch)) (slope t) 0 \<le> sse (xy_points (points ch)) b 0))"
proof -
  have "px_scatter (filter (selected_by lo hi cats orgs) (df s))
          ''Volumetric energy input (kJ/L)'' ''Decimal microbial reduction (-)'' = Inr ch"
    using assms by (simp add: update_bar_chart_pair)
  then have p: "points ch = filter (selected_by lo hi cats orgs) (df s)"
    and t: "trend ch = overall_trendline (filter (selected_by lo hi cats orgs) (df s))"
    by (auto dest: px_scatter_Inr)
  show ?thesis
    unfolding p t overall_trendline_def Let_def
    using ols_no_constant_least ols_no_constant_normal
    by (auto simp: ols_no_constant_def)
qed

theorem trend_line_through_origin_witness:
  "\<exists>ch. fst (update_bar_chart [0, 300] (Scalar (Text ''juice''))
               (Multiple [Text ''E. coli'', Text ''Listeria''])
               (control_descriptor example_table)) = Inr ch
      \<and> trend ch = Some \<lparr> slope = 7 / 5, intercept = 0 \<rparr>
      \<and> sse (xy_points (points ch)) (7 / 5) 0 \<le> sse (xy_points (points ch)) 2 0"
proof -
  have d: "df (control_descriptor example_table) = example_table"
    by (simp add: control_descriptor_def)
  have f: "filter (selected_by 0 300 (Scalar (Text ''juice''))
                     (Multiple [Text ''E. coli'', Text ''Listeria''])) example_table
           = [table_row 1 1 (Text ''juice'') (Text ''E. coli''),
              table_row 2 3 (Text ''juice'') (Text ''Listeria'')]"
    by code_simp
  have t: "overall_trendline [table_row 1 1 (Text ''juice'') (Text ''E. coli''),
              table_row 2 3 (Text ''juice'') (Text ''Listeria'')]
           = Some \<lparr> slope = 7 / 5, intercept = 0 \<rparr>"
    by code_simp
  obtain ch where h: "fst (update_bar_chart [0, 300] (Scalar (Text ''juice''))
               (Multiple [Text ''E. coli'', Text ''Listeria''])
               (control_descriptor example_table)) = Inr ch"
    and "trend ch = overall_trendline [table_row 1 1 (Text ''juice'') (Text ''E. coli''),
              table_row 2 3 (Text ''juice'') (Text ''Listeria'')]"
    using update_bar_chart_drawn [of 0 300 "Scalar (Text ''juice'')"
        "Multiple [Text ''E. coli'', Text ''Listeria'']" "control_descriptor example_table"
        "[table_row 1 1 (Text ''juice'') (Text ''E. coli''),
          table_row 2 3 (Text ''juice'') (Text ''Listeria'')]"]
    by (simp add: d f)
  with t have "trend ch = Some \<lparr> slope = 7 / 5, intercept = 0 \<rparr>"
    by simp
  with trend_line_through_origin [OF h] h show ?thesis
    by force
qed

text \<open>
  The claim as the specification states it fails: for the two points (1, 1) and (2, 3)
  the ordinary least-squares line with a free intercept is y = 2 x - 1, while the trend
  line of the figure is y = 7/5 x.
\<close>

theorem trend_line_counterexample:
  "map_sum id trend
     (fst (update_bar_chart [0, 300] (Scalar (Text ''a'')) (Scalar (Text ''b''))
             (control_descriptor [table_row 1 1 (Text ''a'') (Text ''b''),
                                  table_row 2 3 (Text ''a'') (Text ''b'')])))
     = Inr (Some \<lparr> slope = 7 / 5, intercept = 0 \<rparr>)
   \<and> spec_ols_line (xy_points [table_row 1 1 (Text ''a'') (Text ''b''),
                               table_row 2 3 (Text ''a'') (Text ''b'')])
     = Some \<lparr> slope = 2, intercept = - 1 \<rparr>"
  by code_simp

end
